theory Spec2Isabelle
  imports Main "HOL-Library.Word"
begin

section \<open>Data model of app.py\<close>

text \<open>
  The program keeps two SQLite tables (\<open>projects\<close>, \<open>project_files\<close>) and a directory
  tree \<open>files/project_<id>/\<close> of uploaded blobs. Everything the functions of app.py touch
  is gathered in one record \<open>world\<close> that is passed in and returned updated.
\<close>

type_synonym path = string
type_synonym bytes = "8 word list"

text \<open>A directory entry: a regular file with its content, or a directory.\<close>

datatype node = File bytes | Dir

text \<open>
  The exceptions the modelled library calls raise: \<open>sqlite3.Error\<close> with its message; the
  subclasses of \<open>OSError\<close> raised by \<open>open\<close>, \<open>os.makedirs\<close> and \<open>os.remove\<close>, with the
  offending path; \<open>OverflowError\<close>, raised by the sqlite3 module when an integer bound to
  a statement does not fit SQLite's 64-bit INTEGER, which is not an \<open>sqlite3.Error\<close>.
  \<open>Type_Error\<close> stands for a non-text value used as a path.
\<close>

datatype os_error = FileNotFoundError | IsADirectoryError | NotADirectoryError | FileExistsError

datatype exn = Sqlite_Error string | OS_Error os_error path | Overflow_Error | Type_Error

text \<open>
  What Streamlit shows: \<open>st.success(text)\<close>, \<open>st.error(text)\<close>, where an f-string that
  interpolates a caught exception keeps the exception beside its prefix, and \<open>st.info\<close>.
\<close>

datatype message = Success string | Error string "exn option" | Info string

text \<open>\<open>datetime.date\<close>: year, month, day.\<close>

record date =
  year :: nat
  month :: nat
  day :: nat

text \<open>A row of table \<open>projects\<close>; column \<open>id\<close> is \<open>p_id\<close>.\<close>

record project =
  p_id :: int
  project_name :: string
  category :: string
  pic :: string
  status :: string
  date_start :: string
  date_end :: string

text \<open>A row of table \<open>project_files\<close>, columns in schema order; column \<open>id\<close> is \<open>f_id\<close>.\<close>

record project_file =
  f_id :: int
  project_id :: int
  file_name :: string
  file_path :: string
  upload_date :: string

text \<open>Streamlit's \<open>UploadedFile\<close>: its \<open>name\<close> and the content \<open>getbuffer()\<close> returns.\<close>

record uploaded_file =
  name :: string
  getbuffer :: bytes

text \<open>
  The state. \<open>projects_seq\<close> and \<open>project_files_seq\<close> are the rows of \<open>sqlite_sequence\<close>
  that AUTOINCREMENT maintains (0 while the row is absent). \<open>db_error\<close> is the condition of
  the database connection: \<open>Some m\<close> when SQLite refuses work (locked or unreadable
  database, full disk), in which case every statement raises \<open>sqlite3.Error\<close> with message
  \<open>m\<close>. \<open>disk\<close> maps the canonical path of a file or directory (no \<open>.\<close>, no empty name,
  \<open>..\<close> only in front, for what lies above the working directory) to what is there.
  \<open>now\<close> is what \<open>CURRENT_TIMESTAMP\<close> yields. \<open>screen\<close> collects the messages shown, oldest
  first.
\<close>

record world =
  projects :: "project list"
  projects_seq :: int
  project_files :: "project_file list"
  project_files_seq :: int
  db_error :: "string option"
  disk :: "path \<rightharpoonup> node"
  now :: string
  screen :: "message list"

text \<open>
  The state after \<open>init_db\<close> has run for the first time: both tables exist and are empty,
  no id was ever assigned, and there is no \<open>files\<close> directory. The working directory
  holds the database file \<open>project_mapping.db\<close> that \<open>sqlite3.connect\<close> created and the
  logo \<open>cistech.png\<close> that the page shows; what these two files contain plays no part
  and is left empty. On later runs \<open>init_db\<close> changes nothing
  (\<open>CREATE TABLE IF NOT EXISTS\<close>).
\<close>

definition fresh_db :: world where
  "fresh_db = \<lparr>projects = [], projects_seq = 0, project_files = [], project_files_seq = 0,
     db_error = None,
     disk = [''project_mapping.db'' \<mapsto> File [], ''cistech.png'' \<mapsto> File []],
     now = ''2024-01-01 00:00:00'', screen = []\<rparr>"

section \<open>Library calls\<close>

subsection \<open>Streamlit messages\<close>

definition st_success :: "world \<Rightarrow> string \<Rightarrow> world" where
  "st_success w text = w\<lparr>screen := screen w @ [Success text]\<rparr>"

definition st_error :: "world \<Rightarrow> string \<Rightarrow> exn option \<Rightarrow> world" where
  "st_error w text e = w\<lparr>screen := screen w @ [Error text e]\<rparr>"

definition st_info :: "world \<Rightarrow> string \<Rightarrow> world" where
  "st_info w text = w\<lparr>screen := screen w @ [Info text]\<rparr>"

subsection \<open>Formatting\<close>

definition digit_char :: "nat \<Rightarrow> char" where
  "digit_char n = ''0123456789'' ! n"

text \<open>\<open>str\<close> of a Python int, as an f-string renders it.\<close>

fun str_nat :: "nat \<Rightarrow> string" where
  "str_nat n = (if n < 10 then [digit_char n] else str_nat (n div 10) @ [digit_char (n mod 10)])"

declare str_nat.simps [simp del]

definition str_int :: "int \<Rightarrow> string" where
  "str_int i = (if i < 0 then CHR ''-'' # str_nat (nat (- i)) else str_nat (nat i))"

definition zfill :: "nat \<Rightarrow> string \<Rightarrow> string" where
  "zfill k s = replicate (k - length s) CHR ''0'' @ s"

text \<open>
  \<open>d.strftime('%Y-%m-%d')\<close> as CPython renders it with the C library of Linux: the year
  as it is, without padding, so with fewer than four digits below the year 1000; month
  and day with two digits, zero padded.
\<close>

definition strftime :: "date \<Rightarrow> string" where
  "strftime d = str_nat (year d) @ ''-'' @ zfill 2 (str_nat (month d)) @ ''-''
     @ zfill 2 (str_nat (day d))"

definition leap_year :: "nat \<Rightarrow> bool" where
  "leap_year y = (y mod 4 = 0 \<and> (y mod 100 \<noteq> 0 \<or> y mod 400 = 0))"

definition days_in_month :: "nat \<Rightarrow> nat \<Rightarrow> nat" where
  "days_in_month y m =
     (if m = 2 then (if leap_year y then 29 else 28)
      else if m = 4 \<or> m = 6 \<or> m = 9 \<or> m = 11 then 30 else 31)"

text \<open>The values the constructor of \<open>datetime.date\<close> accepts.\<close>

definition valid_date :: "date \<Rightarrow> bool" where
  "valid_date d = (1 \<le> year d \<and> year d \<le> 9999 \<and> 1 \<le> month d \<and> month d \<le> 12
     \<and> 1 \<le> day d \<and> day d \<le> days_in_month (year d) (month d))"

subsection \<open>Paths and the file system\<close>

text \<open>\<open>os.path.isabs\<close> on POSIX: the path starts with a slash.\<close>

definition os_path_isabs :: "path \<Rightarrow> bool" where
  "os_path_isabs p = (p \<noteq> [] \<and> hd p = CHR ''/'')"

text \<open>\<open>os.path.join(a, b)\<close> on POSIX: an absolute \<open>b\<close> discards \<open>a\<close>.\<close>

definition os_path_join :: "path \<Rightarrow> path \<Rightarrow> path" where
  "os_path_join a b =
     (if os_path_isabs b then b
      else if a = [] \<or> last a = CHR ''/'' then a @ b
      else a @ ''/'' @ b)"

text \<open>The names of a path between slashes, empty ones dropped.\<close>

fun components :: "string \<Rightarrow> path \<Rightarrow> string list" where
  "components acc [] = (if acc = [] then [] else [acc])"
| "components acc (c # cs) =
     (if c = CHR ''/'' then (if acc = [] then [] else [acc]) @ components [] cs
      else components (acc @ [c]) cs)"

fun join_slash :: "string list \<Rightarrow> path" where
  "join_slash [] = []"
| "join_slash [c] = c"
| "join_slash (c # c' # cs) = c @ ''/'' @ join_slash (c' # cs)"

text \<open>
  A place on the disk is given by whether it is counted from the root or from the
  working directory, and by the names that lead to it; above the working directory the
  names start with \<open>..\<close>. Its key on the disk is its canonical path. The root, the
  working directory and the directories above it are always there. Symbolic links,
  permissions, quotas and length limits are not represented.
\<close>

definition key :: "bool \<Rightarrow> string list \<Rightarrow> path" where
  "key ab cs = (if ab then ''/'' else []) @ join_slash cs"

definition parent :: "bool \<Rightarrow> string list \<Rightarrow> string list" where
  "parent ab cs =
     (if cs = [] then (if ab then [] else [''..''])
      else if last cs = ''..'' then cs @ [''..'']
      else butlast cs)"

definition node_at :: "(path \<rightharpoonup> node) \<Rightarrow> bool \<Rightarrow> string list \<Rightarrow> node option" where
  "node_at d ab cs = (if list_all (\<lambda>c. c = ''..'') cs then Some Dir else d (key ab cs))"

text \<open>
  Path resolution: from the place \<open>cur\<close> follow the names one by one. Each step needs
  the place it leaves to be a directory; \<open>.\<close> stays, \<open>..\<close> goes to the parent. The place
  reached last is not examined.
\<close>

fun walk ::
  "(path \<rightharpoonup> node) \<Rightarrow> bool \<Rightarrow> string list \<Rightarrow> string list \<Rightarrow> os_error + string list" where
  "walk d ab cur [] = Inr cur"
| "walk d ab cur (c # cs) =
     (case node_at d ab cur of
        None \<Rightarrow> Inl FileNotFoundError
      | Some (File b) \<Rightarrow> Inl NotADirectoryError
      | Some Dir \<Rightarrow>
          walk d ab (if c = ''.'' then cur else if c = ''..'' then parent ab cur else cur @ [c]) cs)"

text \<open>
  What a path names: the key and the node, or the error of the system call. The empty
  path names nothing; a path with a trailing slash names a directory or fails.
\<close>

definition lookup :: "(path \<rightharpoonup> node) \<Rightarrow> path \<Rightarrow> os_error + path \<times> node" where
  "lookup d p =
     (if p = [] then Inl FileNotFoundError
      else case walk d (os_path_isabs p) [] (components [] p) of
        Inl e \<Rightarrow> Inl e
      | Inr cs \<Rightarrow>
          (case node_at d (os_path_isabs p) cs of
             None \<Rightarrow> Inl FileNotFoundError
           | Some Dir \<Rightarrow> Inr (key (os_path_isabs p) cs, Dir)
           | Some (File b) \<Rightarrow>
               if last p = CHR ''/'' then Inl NotADirectoryError
               else Inr (key (os_path_isabs p) cs, File b)))"

text \<open>\<open>os.path.exists(p)\<close>: false whenever the path cannot be resolved.\<close>

definition os_path_exists :: "(path \<rightharpoonup> node) \<Rightarrow> path \<Rightarrow> bool" where
  "os_path_exists d p = (case lookup d p of Inl e \<Rightarrow> False | Inr n \<Rightarrow> True)"

text \<open>\<open>os.remove(p)\<close>: removes a regular file, raises on a directory or a missing path.\<close>

definition os_remove :: "(path \<rightharpoonup> node) \<Rightarrow> path \<Rightarrow> exn + (path \<rightharpoonup> node)" where
  "os_remove d p =
     (case lookup d p of
        Inl e \<Rightarrow> Inl (OS_Error e p)
      | Inr (k, Dir) \<Rightarrow> Inl (OS_Error IsADirectoryError p)
      | Inr (k, File b) \<Rightarrow> Inr (d(k := None)))"

text \<open>\<open>open(p, 'rb').read()\<close>.\<close>

definition open_rb :: "(path \<rightharpoonup> node) \<Rightarrow> path \<Rightarrow> exn + bytes" where
  "open_rb d p =
     (case lookup d p of
        Inl e \<Rightarrow> Inl (OS_Error e p)
      | Inr (k, Dir) \<Rightarrow> Inl (OS_Error IsADirectoryError p)
      | Inr (k, File b) \<Rightarrow> Inr b)"

text \<open>
  \<open>open(p, 'wb')\<close> followed by \<open>write(data)\<close>: resolves all names but the last to a
  directory, then creates or truncates the regular file of the last name there. It
  raises when the path is empty or names a directory (the root, \<open>.\<close>, \<open>..\<close>, an existing
  directory, or anything written with a trailing slash), and when the names before
  the last do not lead to a directory.
\<close>

definition open_wb :: "(path \<rightharpoonup> node) \<Rightarrow> path \<Rightarrow> bytes \<Rightarrow> exn + (path \<rightharpoonup> node)" where
  "open_wb d p data =
     (if p = [] then Inl (OS_Error FileNotFoundError p)
      else if components [] p = [] then Inl (OS_Error IsADirectoryError p)
      else case walk d (os_path_isabs p) [] (butlast (components [] p)) of
        Inl e \<Rightarrow> Inl (OS_Error e p)
      | Inr dir \<Rightarrow>
          (case node_at d (os_path_isabs p) dir of
             None \<Rightarrow> Inl (OS_Error FileNotFoundError p)
           | Some (File b) \<Rightarrow> Inl (OS_Error NotADirectoryError p)
           | Some Dir \<Rightarrow>
               if last (components [] p) = ''.'' \<or> last (components [] p) = ''..''
               then Inl (OS_Error IsADirectoryError p)
               else
                 (case d (key (os_path_isabs p) (dir @ [last (components [] p)])) of
                    Some Dir \<Rightarrow> Inl (OS_Error IsADirectoryError p)
                  | Some (File b) \<Rightarrow>
                      if last p = CHR ''/'' then Inl (OS_Error NotADirectoryError p)
                      else Inr (d(key (os_path_isabs p) (dir @ [last (components [] p)])
                                  \<mapsto> File data))
                  | None \<Rightarrow>
                      if last p = CHR ''/'' then Inl (OS_Error IsADirectoryError p)
                      else Inr (d(key (os_path_isabs p) (dir @ [last (components [] p)])
                                  \<mapsto> File data)))))"

text \<open>
  \<open>os.makedirs(name, exist_ok=True)\<close>: walks down from the root or the working directory,
  keeps each directory that exists, creates each that is missing, and raises when a
  regular file is in the way (\<open>FileExistsError\<close> for the last name,
  \<open>NotADirectoryError\<close> above it), naming the path it was asked to create. The result
  is the exception, if any, and the disk with the directories created so far.
\<close>

fun mkdirs ::
  "(path \<rightharpoonup> node) \<Rightarrow> path \<Rightarrow> bool \<Rightarrow> string list \<Rightarrow> string list
     \<Rightarrow> exn option \<times> (path \<rightharpoonup> node)" where
  "mkdirs d p ab cur [] = (None, d)"
| "mkdirs d p ab cur (c # cs) =
     (if c = ''.'' then mkdirs d p ab cur cs
      else if c = ''..'' then mkdirs d p ab (parent ab cur) cs
      else case node_at d ab (cur @ [c]) of
        Some Dir \<Rightarrow> mkdirs d p ab (cur @ [c]) cs
      | Some (File b) \<Rightarrow>
          (Some (OS_Error (if cs = [] then FileExistsError else NotADirectoryError) p), d)
      | None \<Rightarrow> mkdirs (d(key ab (cur @ [c]) \<mapsto> Dir)) p ab (cur @ [c]) cs)"

definition os_makedirs ::
  "(path \<rightharpoonup> node) \<Rightarrow> path \<Rightarrow> exn option \<times> (path \<rightharpoonup> node)" where
  "os_makedirs d p = mkdirs d p (os_path_isabs p) [] (components [] p)"

subsection \<open>SQLite\<close>

text \<open>
  The id AUTOINCREMENT assigns: one more than the largest id the table ever held, which
  is the larger of the \<open>sqlite_sequence\<close> entry and the largest id present.
\<close>

definition next_rowid :: "int \<Rightarrow> int list \<Rightarrow> int" where
  "next_rowid s ids = max s (fold max ids 0) + 1"

text \<open>
  The integers the sqlite3 module can bind to a statement: those of SQLite's 64-bit
  INTEGER. Binding another one raises \<open>OverflowError\<close> before the statement runs.
\<close>

definition int64 :: "int \<Rightarrow> bool" where
  "int64 i = (- 9223372036854775808 \<le> i \<and> i \<le> 9223372036854775807)"

text \<open>A cursor row of \<open>SELECT * FROM project_files\<close>: the column values in schema order.\<close>

datatype sqlval = SInt int | SText string

definition fetch_row :: "project_file \<Rightarrow> sqlval list" where
  "fetch_row r = [SInt (f_id r), SInt (project_id r), SText (file_name r),
     SText (file_path r), SText (upload_date r)]"

text \<open>\<open>INSERT INTO projects (project_name, ..., date_end) VALUES (...)\<close> and commit.\<close>

definition insert_project ::
  "world \<Rightarrow> string \<Rightarrow> string \<Rightarrow> string \<Rightarrow> string \<Rightarrow> string \<Rightarrow> string \<Rightarrow> exn + world" where
  "insert_project w pn cat pc stt ds de =
     (case db_error w of
        Some m \<Rightarrow> Inl (Sqlite_Error m)
      | None \<Rightarrow>
          (let i = next_rowid (projects_seq w) (map p_id (projects w))
           in Inr (w\<lparr>projects := projects w @
                      [\<lparr>p_id = i, project_name = pn, category = cat, pic = pc, status = stt,
                        date_start = ds, date_end = de\<rparr>],
                    projects_seq := i\<rparr>)))"

text \<open>\<open>UPDATE projects SET project_name=?, ..., date_end=? WHERE id=?\<close> and commit.\<close>

definition update_projects_row ::
  "world \<Rightarrow> int \<Rightarrow> string \<Rightarrow> string \<Rightarrow> string \<Rightarrow> string \<Rightarrow> string \<Rightarrow> string \<Rightarrow> exn + world" where
  "update_projects_row w i pn cat pc stt ds de =
     (if \<not> int64 i then Inl Overflow_Error
      else case db_error w of
        Some m \<Rightarrow> Inl (Sqlite_Error m)
      | None \<Rightarrow>
          Inr (w\<lparr>projects := map (\<lambda>r. if p_id r = i
                   then r\<lparr>project_name := pn, category := cat, pic := pc, status := stt,
                          date_start := ds, date_end := de\<rparr>
                   else r) (projects w)\<rparr>))"

text \<open>
  \<open>DELETE FROM projects WHERE id=?\<close> and commit. (For an id outside 64 bits, which no
  row has, the code raises when it binds the id; the tables are then the same as here,
  where no row matches.)
\<close>

definition delete_projects_row :: "world \<Rightarrow> int \<Rightarrow> exn + world" where
  "delete_projects_row w i =
     (case db_error w of
        Some m \<Rightarrow> Inl (Sqlite_Error m)
      | None \<Rightarrow> Inr (w\<lparr>projects := filter (\<lambda>r. p_id r \<noteq> i) (projects w)\<rparr>))"

text \<open>\<open>INSERT INTO project_files (project_id, file_name, file_path) VALUES (?, ?, ?)\<close>
  and commit; \<open>upload_date\<close> takes its default.\<close>

definition insert_project_file :: "world \<Rightarrow> int \<Rightarrow> string \<Rightarrow> path \<Rightarrow> exn + world" where
  "insert_project_file w pid fname fpath =
     (if \<not> int64 pid then Inl Overflow_Error
      else case db_error w of
        Some m \<Rightarrow> Inl (Sqlite_Error m)
      | None \<Rightarrow>
          (let i = next_rowid (project_files_seq w) (map f_id (project_files w))
           in Inr (w\<lparr>project_files := project_files w @
                      [\<lparr>f_id = i, project_id = pid, file_name = fname, file_path = fpath,
                        upload_date = now w\<rparr>],
                    project_files_seq := i\<rparr>)))"

text \<open>\<open>SELECT * FROM project_files WHERE id=?\<close> and \<open>fetchone()\<close>.\<close>

definition select_project_file :: "world \<Rightarrow> int \<Rightarrow> exn + sqlval list option" where
  "select_project_file w i =
     (if \<not> int64 i then Inl Overflow_Error
      else case db_error w of
        Some m \<Rightarrow> Inl (Sqlite_Error m)
      | None \<Rightarrow> Inr (map_option fetch_row (find (\<lambda>r. f_id r = i) (project_files w))))"

text \<open>\<open>DELETE FROM project_files WHERE id=?\<close> and commit.\<close>

definition delete_project_files_row :: "world \<Rightarrow> int \<Rightarrow> exn + world" where
  "delete_project_files_row w i =
     (if \<not> int64 i then Inl Overflow_Error
      else case db_error w of
        Some m \<Rightarrow> Inl (Sqlite_Error m)
      | None \<Rightarrow> Inr (w\<lparr>project_files := filter (\<lambda>r. f_id r \<noteq> i) (project_files w)\<rparr>))"

section \<open>The functions of app.py\<close>

text \<open>\<open>get_all_projects\<close>: the rows of \<open>SELECT * FROM projects\<close> in rowid order; on any
  exception an error message and an empty frame.\<close>

definition get_all_projects :: "world \<Rightarrow> project list \<times> world" where
  "get_all_projects w =
     (case db_error w of
        None \<Rightarrow> (projects w, w)
      | Some m \<Rightarrow> ([], st_error w ''Error fetching projects: '' (Some (Sqlite_Error m))))"

definition add_project ::
  "world \<Rightarrow> string \<Rightarrow> string \<Rightarrow> string \<Rightarrow> string \<Rightarrow> date \<Rightarrow> date \<Rightarrow> world" where
  "add_project w pn cat pc stt ds de =
     (case insert_project w pn cat pc stt (strftime ds) (strftime de) of
        Inr w' \<Rightarrow> st_success w' ''Project added successfully!''
      | Inl e \<Rightarrow> st_error w ''Error adding project: '' (Some e))"

text \<open>
  \<open>update_project\<close> catches \<open>sqlite3.Error\<close> only: any other exception of the statement
  leaves the function, and the result is that exception with the state unchanged.
\<close>

definition update_project ::
  "world \<Rightarrow> int \<Rightarrow> string \<Rightarrow> string \<Rightarrow> string \<Rightarrow> string \<Rightarrow> date \<Rightarrow> date
     \<Rightarrow> exn option \<times> world" where
  "update_project w i pn cat pc stt ds de =
     (case update_projects_row w i pn cat pc stt (strftime ds) (strftime de) of
        Inr w' \<Rightarrow> (None, st_success w' ''Project updated successfully!'')
      | Inl (Sqlite_Error m) \<Rightarrow>
          (None, st_error w ''Error updating project: '' (Some (Sqlite_Error m)))
      | Inl e \<Rightarrow> (Some e, w))"

definition delete_project :: "world \<Rightarrow> int \<Rightarrow> world" where
  "delete_project w i =
     (case delete_projects_row w i of
        Inr w' \<Rightarrow> st_success w' ''Project deleted successfully!''
      | Inl e \<Rightarrow> st_error w ''Error deleting project: '' (Some e))"

text \<open>
  \<open>upload_file\<close> has no \<open>try\<close>: an exception of \<open>os.makedirs\<close>, \<open>open\<close> or the INSERT leaves
  the function, and the result is that exception with the state reached so far.
\<close>

definition upload_file :: "world \<Rightarrow> int \<Rightarrow> uploaded_file option \<Rightarrow> exn option \<times> world" where
  "upload_file w pid uploaded =
     (case uploaded of
        None \<Rightarrow> (None, w)
      | Some f \<Rightarrow>
          (let directory = ''files/project_'' @ str_int pid @ ''/'' in
           case os_makedirs (disk w) directory of
             (Some e, d1) \<Rightarrow> (Some e, w\<lparr>disk := d1\<rparr>)
           | (None, d1) \<Rightarrow>
               (let filepath = os_path_join directory (name f) in
                case open_wb d1 filepath (getbuffer f) of
                  Inl e \<Rightarrow> (Some e, w\<lparr>disk := d1\<rparr>)
                | Inr d2 \<Rightarrow>
                    (case insert_project_file (w\<lparr>disk := d2\<rparr>) pid (name f) filepath of
                       Inl e \<Rightarrow> (Some e, w\<lparr>disk := d2\<rparr>)
                     | Inr w' \<Rightarrow> (None, st_success w' ''File uploaded successfully!'')))))"

text \<open>
  \<open>delete_file\<close>: the whole body is inside \<open>try ... except Exception\<close>. The path tested and
  removed is \<open>row[2]\<close> of the fetched row. Column 2 of a fetched row is always text, so
  the case of a number there never arises.
\<close>

definition delete_file :: "world \<Rightarrow> int \<Rightarrow> world" where
  "delete_file w file_id =
     (case select_project_file w file_id of
        Inl e \<Rightarrow> st_error w ''Error deleting the file: '' (Some e)
      | Inr None \<Rightarrow> st_error w ''File does not exist in the database.'' None
      | Inr (Some row) \<Rightarrow>
          (case row ! 2 of
             SInt n \<Rightarrow> st_error w ''Error deleting the file: '' (Some Type_Error)
           | SText p \<Rightarrow>
               if os_path_exists (disk w) p then
                 (case os_remove (disk w) p of
                    Inl e \<Rightarrow> st_error w ''Error deleting the file: '' (Some e)
                  | Inr d' \<Rightarrow>
                      (case delete_project_files_row (w\<lparr>disk := d'\<rparr>) file_id of
                         Inl e \<Rightarrow> st_error (w\<lparr>disk := d'\<rparr>) ''Error deleting the file: '' (Some e)
                       | Inr w' \<Rightarrow> st_success w' ''File deleted successfully!''))
               else st_error w ''File does not exist on disk.'' None))"

subsection \<open>The form handlers\<close>

text \<open>
  Tab "Add Project", after the submit button: the test on the pair of dates is a test on
  a pair the handler has just built, so it holds, and its \<open>else\<close> branch is never taken.
\<close>

definition tab2_submit ::
  "world \<Rightarrow> string \<Rightarrow> string \<Rightarrow> string \<Rightarrow> string \<Rightarrow> date \<Rightarrow> date \<Rightarrow> world" where
  "tab2_submit w new_project new_category new_pic new_status start_date end_date =
     (if new_project \<noteq> [] \<and> new_pic \<noteq> [] then
        add_project w new_project new_category new_pic new_status start_date end_date
      else st_error w ''Project Name and PIC are required!'' None)"

text \<open>Tab "Manage Files": the query for the selected project, outside any \<open>try\<close>.\<close>

definition project_files_query :: "world \<Rightarrow> int \<Rightarrow> exn + (int \<times> string \<times> path) list" where
  "project_files_query w pid =
     (case db_error w of
        Some m \<Rightarrow> Inl (Sqlite_Error m)
      | None \<Rightarrow> Inr (map (\<lambda>r. (f_id r, file_name r, file_path r))
                     (filter (\<lambda>r. project_id r = pid) (project_files w))))"

text \<open>The loop over the rows: each download button gets the content read from the row's
  \<open>file_path\<close>; the first \<open>open\<close> that raises ends the loop with its exception.\<close>

fun download_buttons ::
  "(path \<rightharpoonup> node) \<Rightarrow> (int \<times> string \<times> path) list \<Rightarrow> exn + (int \<times> string \<times> bytes) list" where
  "download_buttons d [] = Inr []"
| "download_buttons d ((i, n, p) # rows) =
     (case open_rb d p of
        Inl e \<Rightarrow> Inl e
      | Inr b \<Rightarrow>
          (case download_buttons d rows of
             Inl e \<Rightarrow> Inl e
           | Inr bs \<Rightarrow> Inr ((i, n, b) # bs)))"

definition tab5_files :: "world \<Rightarrow> int \<Rightarrow> exn + (int \<times> string \<times> bytes) list \<times> world" where
  "tab5_files w pid =
     (case project_files_query w pid of
        Inl e \<Rightarrow> Inl e
      | Inr rows \<Rightarrow>
          if rows = [] then Inr ([], st_info w ''No files found for this project.'')
          else (case download_buttons (disk w) rows of
                  Inl e \<Rightarrow> Inl e
                | Inr bs \<Rightarrow> Inr (bs, w)))"

section \<open>States the program can reach\<close>

text \<open>
  Every state is reached from the fresh database by the program's operations, whether
  they succeed, show an error or raise, and by changes that come from outside: the
  condition of the connection, the clock, the content of the disk and the screen.
\<close>

inductive reachable :: "world \<Rightarrow> bool" where
  start: "reachable fresh_db"
| add: "reachable w \<Longrightarrow> reachable (add_project w pn cat pc stt ds de)"
| update: "reachable w \<Longrightarrow> reachable (snd (update_project w i pn cat pc stt ds de))"
| delete: "reachable w \<Longrightarrow> reachable (delete_project w i)"
| upload: "reachable w \<Longrightarrow> reachable (snd (upload_file w pid f))"
| delete_file: "reachable w \<Longrightarrow> reachable (delete_file w i)"
| outside: "reachable w \<Longrightarrow> reachable (w\<lparr>db_error := e, disk := d, now := t, screen := s\<rparr>)"

text \<open>Both tables list their rows by strictly increasing id.\<close>

definition ids_ascending :: "world \<Rightarrow> bool" where
  "ids_ascending w = (sorted_wrt (<) (map p_id (projects w))
     \<and> sorted_wrt (<) (map f_id (project_files w)))"

section \<open>Example states\<close>

text \<open>The scenario of the specification: one project added to a fresh database.\<close>

definition new_year :: date where
  "new_year = \<lparr>year = 2024, month = 1, day = 1\<rparr>"

definition portal_revamp :: world where
  "portal_revamp = add_project fresh_db ''Portal Revamp'' ''Project'' ''Alice'' ''In Progress''
     \<lparr>year = 2024, month = 1, day = 1\<rparr> \<lparr>year = 2024, month = 2, day = 1\<rparr>"

text \<open>Then a file uploaded for project 1, and a second one of the same name.\<close>

definition spec_pdf :: uploaded_file where
  "spec_pdf = \<lparr>name = ''spec.pdf'', getbuffer = [37, 80, 68, 70]\<rparr>"

definition with_attachment :: world where
  "with_attachment = snd (upload_file portal_revamp 1 (Some spec_pdf))"

definition spec_pdf_again :: uploaded_file where
  "spec_pdf_again = \<lparr>name = ''spec.pdf'', getbuffer = [1, 2]\<rparr>"

definition uploaded_twice :: world where
  "uploaded_twice = snd (upload_file with_attachment 1 (Some spec_pdf_again))"

text \<open>The uploaded file removed from the disk by something other than the program.\<close>

definition blob_lost :: world where
  "blob_lost =
     with_attachment\<lparr>disk := (disk with_attachment)(''files/project_1/spec.pdf'' := None)\<rparr>"

text \<open>The state after the upload, with an unrelated file \<open>spec.pdf\<close> in the current
  directory.\<close>

definition with_namesake :: world where
  "with_namesake =
     with_attachment\<lparr>disk := (disk with_attachment)(''spec.pdf'' \<mapsto> File [0])\<rparr>"

text \<open>The database locked by another process.\<close>

definition locked :: world where
  "locked = portal_revamp\<lparr>db_error := Some ''database is locked''\<rparr>"

text \<open>Uploads whose name is not a plain file name, and a disk that has \<open>/tmp\<close>.\<close>

definition nested_name :: uploaded_file where
  "nested_name = \<lparr>name = ''a/b'', getbuffer = [7]\<rparr>"

definition absolute_name :: uploaded_file where
  "absolute_name = \<lparr>name = ''/tmp/x.pdf'', getbuffer = [7]\<rparr>"

definition parent_name :: uploaded_file where
  "parent_name = \<lparr>name = ''../x.pdf'', getbuffer = [7]\<rparr>"

definition with_tmp :: world where
  "with_tmp = portal_revamp\<lparr>disk := (disk portal_revamp)(''/tmp'' \<mapsto> Dir)\<rparr>"

text \<open>A second project, and a date before the year 1000.\<close>

definition two_projects :: world where
  "two_projects = add_project portal_revamp ''Helpdesk'' ''Service'' ''Carol'' ''Not Started''
     \<lparr>year = 2024, month = 3, day = 15\<rparr> \<lparr>year = 2024, month = 4, day = 14\<rparr>"

definition year_999 :: date where
  "year_999 = \<lparr>year = 999, month = 1, day = 1\<rparr>"

section \<open>Auxiliary facts\<close>

subsection \<open>Row ids and formatting\<close>

lemma fold_max_ge: "(a::int) \<le> fold max ids a"
  by (induction ids arbitrary: a) (auto intro: order_trans [OF max.cobounded2])

lemma fold_max_mem: "(i::int) \<in> set ids \<Longrightarrow> i \<le> fold max ids a"
proof (induction ids arbitrary: a)
  case Nil then show ?case by simp
next
  case (Cons x xs)
  show ?case
  proof (cases "i = x")
    case True
    have "x \<le> max x a" by simp
    also have "\<dots> \<le> fold max xs (max x a)" by (rule fold_max_ge)
    finally show ?thesis using True by simp
  next
    case False
    then have "i \<in> set xs" using Cons.prems by simp
    then show ?thesis using Cons.IH by simp
  qed
qed

lemma next_rowid_gt_ids: "i \<in> set ids \<Longrightarrow> i < next_rowid s ids"
  using fold_max_mem [of i ids 0] by (simp add: next_rowid_def)

lemma next_rowid_gt_seq: "s < next_rowid s ids"
  by (simp add: next_rowid_def)

lemma next_rowid_fresh: "next_rowid 0 [] = 1"
  by (simp add: next_rowid_def)

lemma length_str_nat_pos: "0 < length (str_nat n)"
  by (subst str_nat.simps) simp

lemma length_str_nat_10: "n < 10 \<Longrightarrow> length (str_nat n) = 1"
  by (subst str_nat.simps) simp

lemma length_str_nat_100: "n < 100 \<Longrightarrow> length (str_nat n) \<le> 2"
  by (subst str_nat.simps) (simp add: length_str_nat_10)

lemma length_str_nat_2: "10 \<le> n \<Longrightarrow> n < 100 \<Longrightarrow> length (str_nat n) = 2"
  by (subst str_nat.simps) (simp add: length_str_nat_10)

lemma length_str_nat_3: "100 \<le> n \<Longrightarrow> n < 1000 \<Longrightarrow> length (str_nat n) = 3"
  using length_str_nat_2 [of "n div 10"] by (subst str_nat.simps) simp

lemma length_str_nat_4: "1000 \<le> n \<Longrightarrow> n < 10000 \<Longrightarrow> length (str_nat n) = 4"
  using length_str_nat_3 [of "n div 10"] by (subst str_nat.simps) simp

lemma length_zfill: "length s \<le> k \<Longrightarrow> length (zfill k s) = k"
  by (simp add: zfill_def)

lemma days_in_month_le: "days_in_month y m \<le> 31"
  by (simp add: days_in_month_def)

text \<open>From the year 1000 on the rendering has the shape \<open>YYYY-MM-DD\<close>.\<close>

lemma strftime_shape:
  assumes "valid_date d" and "1000 \<le> year d"
  shows "length (strftime d) = 10 \<and> strftime d ! 4 = CHR ''-'' \<and> strftime d ! 7 = CHR ''-''"
proof -
  have y: "length (str_nat (year d)) = 4"
    using assms by (intro length_str_nat_4) (simp_all add: valid_date_def)
  have m: "length (zfill 2 (str_nat (month d))) = 2"
    using assms by (intro length_zfill length_str_nat_100) (simp add: valid_date_def)
  have "day d \<le> 31"
    using assms days_in_month_le [of "year d" "month d"] by (simp add: valid_date_def)
  then have dd: "length (zfill 2 (str_nat (day d))) = 2"
    by (intro length_zfill length_str_nat_100) simp
  show ?thesis using y m dd by (simp add: strftime_def nth_append)
qed

subsection \<open>The project operations, statement by statement\<close>

lemma get_all_projects_ok: "db_error w = None \<Longrightarrow> get_all_projects w = (projects w, w)"
  by (simp add: get_all_projects_def)

lemma add_project_ok:
  "db_error w = None \<Longrightarrow>
   add_project w pn cat pc stt ds de =
     st_success (w\<lparr>projects := projects w @
         [\<lparr>p_id = next_rowid (projects_seq w) (map p_id (projects w)), project_name = pn,
           category = cat, pic = pc, status = stt, date_start = strftime ds,
           date_end = strftime de\<rparr>],
       projects_seq := next_rowid (projects_seq w) (map p_id (projects w))\<rparr>)
       ''Project added successfully!''"
  by (simp add: add_project_def insert_project_def Let_def)

lemma add_project_failed:
  "db_error w = Some m \<Longrightarrow>
   add_project w pn cat pc stt ds de
     = st_error w ''Error adding project: '' (Some (Sqlite_Error m))"
  by (simp add: add_project_def insert_project_def)

lemma update_project_ok:
  assumes "int64 i" and "db_error w = None"
  shows "update_project w i pn cat pc stt ds de =
     (None, st_success (w\<lparr>projects := map (\<lambda>r. if p_id r = i
         then \<lparr>p_id = i, project_name = pn, category = cat, pic = pc, status = stt,
               date_start = strftime ds, date_end = strftime de\<rparr>
         else r) (projects w)\<rparr>) ''Project updated successfully!'')"
proof -
  have "(\<lambda>r::project. if p_id r = i
           then r\<lparr>project_name := pn, category := cat, pic := pc, status := stt,
                  date_start := strftime ds, date_end := strftime de\<rparr>
           else r)
      = (\<lambda>r. if p_id r = i
           then \<lparr>p_id = i, project_name = pn, category = cat, pic = pc, status = stt,
                 date_start = strftime ds, date_end = strftime de\<rparr>
           else r)"
    by (rule ext) simp
  then show ?thesis
    using assms by (simp add: update_project_def update_projects_row_def)
qed

lemma update_project_failed:
  "int64 i \<Longrightarrow> db_error w = Some m \<Longrightarrow>
   update_project w i pn cat pc stt ds de =
     (None, st_error w ''Error updating project: '' (Some (Sqlite_Error m)))"
  by (simp add: update_project_def update_projects_row_def)

text \<open>An id that does not fit 64 bits: \<open>OverflowError\<close> leaves \<open>update_project\<close>.\<close>

lemma update_project_overflow:
  "\<not> int64 i \<Longrightarrow> update_project w i pn cat pc stt ds de = (Some Overflow_Error, w)"
  by (simp add: update_project_def update_projects_row_def)

lemma map_if_absent: "i \<notin> f ` set xs \<Longrightarrow> map (\<lambda>r. if f r = i then g r else r) xs = xs"
  by (induction xs) auto

lemma update_project_tables:
  "project_files (snd (update_project w i pn cat pc stt ds de)) = project_files w
   \<and> map p_id (projects (snd (update_project w i pn cat pc stt ds de))) = map p_id (projects w)"
proof (cases "int64 i")
  case False
  then show ?thesis by (simp add: update_project_overflow)
next
  case True
  show ?thesis
  proof (cases "db_error w")
    case None
    have "map p_id (map (\<lambda>r. if p_id r = i
         then \<lparr>p_id = i, project_name = pn, category = cat, pic = pc, status = stt,
               date_start = strftime ds, date_end = strftime de\<rparr>
         else r) (projects w)) = map p_id (projects w)"
      by (simp add: comp_def if_distrib [of p_id] cong: if_cong)
    then show ?thesis
      by (simp only: update_project_ok [OF True None] st_success_def snd_conv)
        (simp del: map_map)
  next
    case (Some m)
    then show ?thesis by (simp add: update_project_failed [OF True] st_error_def)
  qed
qed

lemma delete_project_ok:
  "db_error w = None \<Longrightarrow>
   delete_project w i =
     st_success (w\<lparr>projects := filter (\<lambda>r. p_id r \<noteq> i) (projects w)\<rparr>)
       ''Project deleted successfully!''"
  by (simp add: delete_project_def delete_projects_row_def)

lemma delete_project_failed:
  "db_error w = Some m \<Longrightarrow>
   delete_project w i = st_error w ''Error deleting project: '' (Some (Sqlite_Error m))"
  by (simp add: delete_project_def delete_projects_row_def)

subsection \<open>The file operations, statement by statement\<close>

text \<open>\<open>delete_file\<close> by cases; the path it tests and removes is the row's \<open>file_name\<close>.\<close>

lemma delete_file_row:
  assumes "int64 i" and "db_error w = None"
    and "find (\<lambda>r. f_id r = i) (project_files w) = Some r"
  shows "delete_file w i =
    (if os_path_exists (disk w) (file_name r) then
       (case os_remove (disk w) (file_name r) of
          Inl e \<Rightarrow> st_error w ''Error deleting the file: '' (Some e)
        | Inr d' \<Rightarrow> st_success (w\<lparr>disk := d',
              project_files := filter (\<lambda>r. f_id r \<noteq> i) (project_files w)\<rparr>)
            ''File deleted successfully!'')
     else st_error w ''File does not exist on disk.'' None)"
  using assms
  by (simp add: delete_file_def select_project_file_def fetch_row_def
      delete_project_files_row_def split: sum.splits)

lemma delete_file_no_row:
  assumes "int64 i" and "db_error w = None"
    and "find (\<lambda>r. f_id r = i) (project_files w) = None"
  shows "delete_file w i = st_error w ''File does not exist in the database.'' None"
  using assms by (simp add: delete_file_def select_project_file_def)

lemma delete_file_failed:
  assumes "int64 i" and "db_error w = Some m"
  shows "delete_file w i = st_error w ''Error deleting the file: '' (Some (Sqlite_Error m))"
  using assms by (simp add: delete_file_def select_project_file_def)

lemma delete_file_overflow:
  assumes "\<not> int64 i"
  shows "delete_file w i = st_error w ''Error deleting the file: '' (Some Overflow_Error)"
  using assms by (simp add: delete_file_def select_project_file_def)

lemma delete_file_tables:
  "projects (delete_file w i) = projects w
   \<and> (project_files (delete_file w i) = project_files w
      \<or> project_files (delete_file w i) = filter (\<lambda>r. f_id r \<noteq> i) (project_files w))"
proof (cases "int64 i")
  case False
  then show ?thesis by (simp add: delete_file_overflow st_error_def)
next
  case True
  show ?thesis
  proof (cases "db_error w")
    case (Some m)
    then show ?thesis by (simp add: delete_file_failed [OF True] st_error_def)
  next
    case None
    show ?thesis
    proof (cases "find (\<lambda>r. f_id r = i) (project_files w)")
      case None
      with \<open>db_error w = None\<close> show ?thesis
        by (simp add: delete_file_no_row [OF True] st_error_def)
    next
      case (Some r)
      with \<open>db_error w = None\<close> show ?thesis
        by (simp add: delete_file_row [OF True] st_error_def st_success_def split: sum.splits)
    qed
  qed
qed

lemma upload_file_tables:
  "projects (snd (upload_file w pid f)) = projects w
   \<and> (project_files (snd (upload_file w pid f)) = project_files w
      \<or> (\<exists>r. project_files (snd (upload_file w pid f)) = project_files w @ [r]
            \<and> f_id r = next_rowid (project_files_seq w) (map f_id (project_files w))))"
  by (auto simp add: upload_file_def insert_project_file_def st_success_def Let_def
      split: option.splits sum.splits prod.splits)

subsection \<open>Ids stay in ascending order\<close>

lemma sorted_wrt_snoc_next:
  "sorted_wrt (<) ids \<Longrightarrow> sorted_wrt (<) (ids @ [next_rowid s ids])"
  by (auto simp add: sorted_wrt_append next_rowid_gt_ids)

lemma sorted_ids_filter:
  "sorted_wrt (<) (map f xs) \<Longrightarrow> sorted_wrt (<) (map f (filter P xs))"
  by (induction xs) auto

lemma ids_ascending_add: "ids_ascending w \<Longrightarrow> ids_ascending (add_project w pn cat pc stt ds de)"
proof (cases "db_error w")
  case None
  assume "ids_ascending w"
  then show ?thesis
    using sorted_wrt_snoc_next [of "map p_id (projects w)" "projects_seq w"]
    by (simp add: ids_ascending_def add_project_ok [OF None] st_success_def)
next
  case (Some m)
  assume "ids_ascending w"
  then show ?thesis
    using Some by (simp add: ids_ascending_def add_project_failed st_error_def)
qed

lemma ids_ascending_update:
  "ids_ascending w \<Longrightarrow> ids_ascending (snd (update_project w i pn cat pc stt ds de))"
  using update_project_tables [of w i pn cat pc stt ds de]
  by (simp add: ids_ascending_def)

lemma ids_ascending_delete: "ids_ascending w \<Longrightarrow> ids_ascending (delete_project w i)"
proof (cases "db_error w")
  case None
  assume "ids_ascending w"
  then show ?thesis
    by (simp add: ids_ascending_def delete_project_ok [OF None] st_success_def sorted_ids_filter)
next
  case (Some m)
  assume "ids_ascending w"
  then show ?thesis
    using Some by (simp add: ids_ascending_def delete_project_failed st_error_def)
qed

lemma ids_ascending_upload: "ids_ascending w \<Longrightarrow> ids_ascending (snd (upload_file w pid f))"
  using upload_file_tables [of w pid f]
    sorted_wrt_snoc_next [of "map f_id (project_files w)" "project_files_seq w"]
  by (auto simp add: ids_ascending_def)

lemma ids_ascending_delete_file: "ids_ascending w \<Longrightarrow> ids_ascending (delete_file w i)"
  using delete_file_tables [of w i]
  by (auto simp add: ids_ascending_def sorted_ids_filter)

lemma reachable_ids_ascending: "reachable w \<Longrightarrow> ids_ascending w"
proof (induction rule: reachable.induct)
  case start
  show ?case by (simp add: ids_ascending_def fresh_db_def)
next
  case (outside w e d t s)
  then show ?case by (simp add: ids_ascending_def)
qed (simp_all add: ids_ascending_add ids_ascending_update ids_ascending_delete
      ids_ascending_upload ids_ascending_delete_file)

subsection \<open>The example states, evaluated\<close>

lemmas file_calls = upload_file_def os_makedirs_def os_path_join_def os_path_isabs_def
  open_wb_def open_rb_def os_remove_def os_path_exists_def lookup_def node_at_def key_def
  parent_def insert_project_file_def int64_def st_success_def next_rowid_def Let_def

lemma strftime_2024_01_01: "strftime \<lparr>year = 2024, month = 1, day = 1\<rparr> = ''2024-01-01''"
  by (simp add: strftime_def zfill_def str_nat.simps digit_char_def)

lemma strftime_2024_02_01: "strftime \<lparr>year = 2024, month = 2, day = 1\<rparr> = ''2024-02-01''"
  by (simp add: strftime_def zfill_def str_nat.simps digit_char_def)

lemma strftime_2024_Suc:
  "strftime \<lparr>year = 2024, month = Suc 0, day = Suc 0\<rparr> = ''2024-01-01''"
  "strftime \<lparr>year = 2024, month = 2, day = Suc 0\<rparr> = ''2024-02-01''"
  using strftime_2024_01_01 strftime_2024_02_01 by simp_all

lemma strftime_new_year: "strftime new_year = ''2024-01-01''"
  unfolding new_year_def by (rule strftime_2024_01_01)

lemma strftime_2024_spring:
  "strftime \<lparr>year = 2024, month = 3, day = 15\<rparr> = ''2024-03-15''"
  "strftime \<lparr>year = 2024, month = 4, day = 14\<rparr> = ''2024-04-14''"
  by (simp_all add: strftime_def zfill_def str_nat.simps digit_char_def)

text \<open>Before the year 1000 the year is written with fewer than four digits.\<close>

lemma strftime_year_999: "strftime year_999 = ''999-01-01''"
  by (simp add: year_999_def strftime_def zfill_def str_nat.simps digit_char_def)

lemma valid_date_year_999: "valid_date year_999"
  by (simp add: year_999_def valid_date_def days_in_month_def)

lemma portal_revamp_world:
  "portal_revamp = \<lparr>projects =
       [\<lparr>p_id = 1, project_name = ''Portal Revamp'', category = ''Project'', pic = ''Alice'',
         status = ''In Progress'', date_start = ''2024-01-01'', date_end = ''2024-02-01''\<rparr>],
     projects_seq = 1, project_files = [], project_files_seq = 0, db_error = None,
     disk = [''project_mapping.db'' \<mapsto> File [], ''cistech.png'' \<mapsto> File []],
     now = ''2024-01-01 00:00:00'',
     screen = [Success ''Project added successfully!'']\<rparr>"
  by (simp add: portal_revamp_def add_project_ok fresh_db_def st_success_def
      next_rowid_def strftime_2024_Suc)

text \<open>The scenario lists exactly one row, with id 1.\<close>

lemma portal_revamp_listing:
  "fst (get_all_projects portal_revamp) =
     [\<lparr>p_id = 1, project_name = ''Portal Revamp'', category = ''Project'', pic = ''Alice'',
       status = ''In Progress'', date_start = ''2024-01-01'', date_end = ''2024-02-01''\<rparr>]"
  by (simp add: portal_revamp_world get_all_projects_def)

lemma two_projects_fields:
  "projects two_projects =
       [\<lparr>p_id = 1, project_name = ''Portal Revamp'', category = ''Project'', pic = ''Alice'',
         status = ''In Progress'', date_start = ''2024-01-01'', date_end = ''2024-02-01''\<rparr>,
        \<lparr>p_id = 2, project_name = ''Helpdesk'', category = ''Service'', pic = ''Carol'',
         status = ''Not Started'', date_start = ''2024-03-15'', date_end = ''2024-04-14''\<rparr>]"
  "db_error two_projects = None"
  by (simp_all add: two_projects_def add_project_ok portal_revamp_world st_success_def
      next_rowid_def strftime_2024_spring)

lemma str_int_1: "str_int 1 = ''1''"
  by (simp add: str_int_def str_nat.simps digit_char_def)

lemma with_attachment_world:
  "with_attachment = portal_revamp\<lparr>
      project_files := [\<lparr>f_id = 1, project_id = 1, file_name = ''spec.pdf'',
         file_path = ''files/project_1/spec.pdf'', upload_date = ''2024-01-01 00:00:00''\<rparr>],
      project_files_seq := 1,
      disk := [''project_mapping.db'' \<mapsto> File [], ''cistech.png'' \<mapsto> File [],
               ''files'' \<mapsto> Dir, ''files/project_1'' \<mapsto> Dir,
               ''files/project_1/spec.pdf'' \<mapsto> File [37, 80, 68, 70]],
      screen := [Success ''Project added successfully!'', Success ''File uploaded successfully!'']\<rparr>"
  by (simp add: with_attachment_def spec_pdf_def portal_revamp_world str_int_1 file_calls)

lemma with_attachment_fields:
  "projects with_attachment =
       [\<lparr>p_id = 1, project_name = ''Portal Revamp'', category = ''Project'', pic = ''Alice'',
         status = ''In Progress'', date_start = ''2024-01-01'', date_end = ''2024-02-01''\<rparr>]"
  "project_files with_attachment = [\<lparr>f_id = 1, project_id = 1, file_name = ''spec.pdf'',
         file_path = ''files/project_1/spec.pdf'', upload_date = ''2024-01-01 00:00:00''\<rparr>]"
  "project_files_seq with_attachment = 1"
  "db_error with_attachment = None"
  "disk with_attachment = [''project_mapping.db'' \<mapsto> File [], ''cistech.png'' \<mapsto> File [],
               ''files'' \<mapsto> Dir, ''files/project_1'' \<mapsto> Dir,
               ''files/project_1/spec.pdf'' \<mapsto> File [37, 80, 68, 70]]"
  by (simp_all add: with_attachment_world portal_revamp_world)

lemma upload_spec_pdf: "upload_file portal_revamp 1 (Some spec_pdf) = (None, with_attachment)"
  unfolding with_attachment_world
  by (simp add: spec_pdf_def portal_revamp_world str_int_1 file_calls)

lemma tab5_files_with_attachment:
  "tab5_files with_attachment 1 = Inr ([(1, ''spec.pdf'', [37, 80, 68, 70])], with_attachment)"
  by (simp add: tab5_files_def project_files_query_def with_attachment_fields file_calls)

lemma uploaded_twice_fields:
  "project_files uploaded_twice =
     [\<lparr>f_id = 1, project_id = 1, file_name = ''spec.pdf'',
         file_path = ''files/project_1/spec.pdf'', upload_date = ''2024-01-01 00:00:00''\<rparr>,
      \<lparr>f_id = 2, project_id = 1, file_name = ''spec.pdf'',
         file_path = ''files/project_1/spec.pdf'', upload_date = ''2024-01-01 00:00:00''\<rparr>]"
  "db_error uploaded_twice = None"
  "disk uploaded_twice = [''project_mapping.db'' \<mapsto> File [], ''cistech.png'' \<mapsto> File [],
               ''files'' \<mapsto> Dir, ''files/project_1'' \<mapsto> Dir,
               ''files/project_1/spec.pdf'' \<mapsto> File [1, 2]]"
  by (simp_all add: uploaded_twice_def spec_pdf_again_def with_attachment_world
      portal_revamp_world str_int_1 file_calls)

lemma reachable_portal_revamp: "reachable portal_revamp"
  unfolding portal_revamp_def by (rule reachable.add [OF reachable.start])

lemma reachable_with_attachment: "reachable with_attachment"
  unfolding with_attachment_def by (rule reachable.upload [OF reachable_portal_revamp])

section \<open>Adding a project and listing\<close>

text \<open>
  Claim C1, for dates from the year 1000 on, which are all the dates the form offers.
  For a non-empty name and PIC and calendar dates of the years 1000 to 9999, while the
  database answers, the form handler calls \<open>add_project\<close>, and the listing that follows
  contains a row with the given name, category, PIC and status and with both dates
  rendered by \<open>strftime('%Y-%m-%d')\<close>, ten characters with dashes after the year and the
  month. When the table is empty and no id was ever assigned, the row's id is 1.
\<close>

theorem add_project_then_list:
  assumes valid: "pn \<noteq> []" "pc \<noteq> []"
    and dates: "valid_date ds" "valid_date de"
    and years: "1000 \<le> year ds" "1000 \<le> year de"
    and db: "db_error w = None"
  shows "tab2_submit w pn cat pc stt ds de = add_project w pn cat pc stt ds de
     \<and> (\<exists>r \<in> set (fst (get_all_projects (add_project w pn cat pc stt ds de))).
           project_name r = pn \<and> category r = cat \<and> pic r = pc \<and> status r = stt
         \<and> date_start r = strftime ds \<and> date_end r = strftime de
         \<and> length (date_start r) = 10 \<and> date_start r ! 4 = CHR ''-''
         \<and> date_start r ! 7 = CHR ''-''
         \<and> length (date_end r) = 10 \<and> date_end r ! 4 = CHR ''-'' \<and> date_end r ! 7 = CHR ''-''
         \<and> (projects w = [] \<and> projects_seq w = 0 \<longrightarrow> p_id r = 1))"
proof -
  let ?i = "next_rowid (projects_seq w) (map p_id (projects w))"
  let ?r = "\<lparr>p_id = ?i, project_name = pn, category = cat, pic = pc, status = stt,
             date_start = strftime ds, date_end = strftime de\<rparr>"
  have handler: "tab2_submit w pn cat pc stt ds de = add_project w pn cat pc stt ds de"
    using valid by (simp add: tab2_submit_def)
  have "fst (get_all_projects (add_project w pn cat pc stt ds de)) = projects w @ [?r]"
    using db by (simp add: add_project_ok get_all_projects_def st_success_def)
  then have mem: "?r \<in> set (fst (get_all_projects (add_project w pn cat pc stt ds de)))"
    by simp
  have first: "projects w = [] \<and> projects_seq w = 0 \<longrightarrow> ?i = 1"
    by (auto simp add: next_rowid_fresh)
  have "\<exists>r \<in> set (fst (get_all_projects (add_project w pn cat pc stt ds de))).
           project_name r = pn \<and> category r = cat \<and> pic r = pc \<and> status r = stt
         \<and> date_start r = strftime ds \<and> date_end r = strftime de
         \<and> length (date_start r) = 10 \<and> date_start r ! 4 = CHR ''-''
         \<and> date_start r ! 7 = CHR ''-''
         \<and> length (date_end r) = 10 \<and> date_end r ! 4 = CHR ''-'' \<and> date_end r ! 7 = CHR ''-''
         \<and> (projects w = [] \<and> projects_seq w = 0 \<longrightarrow> p_id r = 1)"
    using mem first strftime_shape [OF dates(1) years(1)] strftime_shape [OF dates(2) years(2)]
    by (intro bexI [of _ ?r]) simp_all
  with handler show ?thesis by simp
qed

text \<open>The scenario of the specification, from the theorem.\<close>

theorem add_project_then_list_witness:
  "''Portal Revamp'' \<noteq> [] \<and> ''Alice'' \<noteq> [] \<and> db_error fresh_db = None
   \<and> valid_date \<lparr>year = 2024, month = 1, day = 1\<rparr>
   \<and> valid_date \<lparr>year = 2024, month = 2, day = 1\<rparr>
   \<and> 1000 \<le> year \<lparr>year = 2024, month = 1, day = 1\<rparr>
   \<and> 1000 \<le> year \<lparr>year = 2024, month = 2, day = 1\<rparr>
   \<and> (\<exists>r \<in> set (fst (get_all_projects portal_revamp)).
         project_name r = ''Portal Revamp'' \<and> category r = ''Project'' \<and> pic r = ''Alice''
       \<and> status r = ''In Progress'' \<and> date_start r = ''2024-01-01''
       \<and> date_end r = ''2024-02-01'' \<and> p_id r = 1)"
proof -
  have v: "''Portal Revamp'' \<noteq> []" "''Alice'' \<noteq> []" by simp_all
  have db: "db_error fresh_db = None" by (simp add: fresh_db_def)
  have d1: "valid_date \<lparr>year = 2024, month = 1, day = 1\<rparr>"
    by (simp add: valid_date_def days_in_month_def)
  have d2: "valid_date \<lparr>year = 2024, month = 2, day = 1\<rparr>"
    by (simp add: valid_date_def days_in_month_def leap_year_def)
  have y1: "1000 \<le> year \<lparr>year = 2024, month = 1, day = 1\<rparr>" by simp
  have y2: "1000 \<le> year \<lparr>year = 2024, month = 2, day = 1\<rparr>" by simp
  have e: "projects fresh_db = [] \<and> projects_seq fresh_db = 0" by (simp add: fresh_db_def)
  from add_project_then_list [OF v d1 d2 y1 y2 db, of "''Project''" "''In Progress''"]
  have "\<exists>r \<in> set (fst (get_all_projects portal_revamp)).
         project_name r = ''Portal Revamp'' \<and> category r = ''Project'' \<and> pic r = ''Alice''
       \<and> status r = ''In Progress'' \<and> date_start r = ''2024-01-01''
       \<and> date_end r = ''2024-02-01'' \<and> p_id r = 1"
    using e
    unfolding portal_revamp_def [symmetric] strftime_2024_01_01 strftime_2024_02_01
    by blast
  then show ?thesis by (intro conjI v db d1 d2 y1 y2)
qed

text \<open>
  Before the year 1000 the stored text is not of the shape \<open>YYYY-MM-DD\<close>: the first of
  January 999, a date the constructor of \<open>datetime.date\<close> accepts, is stored and listed
  as \<open>999-01-01\<close>.
\<close>

theorem add_project_year_999_counterexample:
  "valid_date year_999
   \<and> fst (get_all_projects (add_project fresh_db ''Portal Revamp'' ''Project'' ''Alice''
        ''In Progress'' year_999 year_999))
     = [\<lparr>p_id = 1, project_name = ''Portal Revamp'', category = ''Project'', pic = ''Alice'',
         status = ''In Progress'', date_start = ''999-01-01'', date_end = ''999-01-01''\<rparr>]"
  by (simp add: valid_date_year_999 add_project_ok fresh_db_def st_success_def
      get_all_projects_def next_rowid_def strftime_year_999)

section \<open>Uploading, listing and downloading\<close>

text \<open>
  Claim C2 has the uploaded bytes stored under the directory of the project, at
  \<open>files/project_<P>/<N>\<close>. \<open>upload_file\<close> builds the path with \<open>os.path.join\<close> from the
  name as it came, so a name can lead out of that directory. A file named \<open>/tmp/x.pdf\<close>
  uploaded for project 1 is written to \<open>/tmp/x.pdf\<close>, the row's \<open>file_path\<close> is \<open>/tmp/x.pdf\<close>, and
  there is nothing to read at \<open>files/project_1//tmp/x.pdf\<close>. A file named \<open>../x.pdf\<close> is written
  to \<open>files/x.pdf\<close>, beside the directories of the projects, and nothing is stored in
  \<open>files/project_1\<close>.
\<close>

theorem upload_file_leaves_project_directory:
  "fst (upload_file with_tmp 1 (Some absolute_name)) = None
   \<and> map file_path (project_files (snd (upload_file with_tmp 1 (Some absolute_name))))
        = [''/tmp/x.pdf'']
   \<and> disk (snd (upload_file with_tmp 1 (Some absolute_name))) ''/tmp/x.pdf'' = Some (File [7])
   \<and> open_rb (disk (snd (upload_file with_tmp 1 (Some absolute_name))))
        (''files/project_'' @ str_int 1 @ ''/'' @ name absolute_name)
        = Inl (OS_Error FileNotFoundError ''files/project_1//tmp/x.pdf'')
   \<and> fst (upload_file portal_revamp 1 (Some parent_name)) = None
   \<and> map file_path (project_files (snd (upload_file portal_revamp 1 (Some parent_name))))
        = [''files/project_1/../x.pdf'']
   \<and> disk (snd (upload_file portal_revamp 1 (Some parent_name))) ''files/x.pdf'' = Some (File [7])
   \<and> disk (snd (upload_file portal_revamp 1 (Some parent_name))) ''files/project_1/x.pdf'' = None"
proof -
  have a: "upload_file with_tmp 1 (Some absolute_name)
      = (None, with_tmp\<lparr>
          project_files := [\<lparr>f_id = 1, project_id = 1, file_name = ''/tmp/x.pdf'',
             file_path = ''/tmp/x.pdf'', upload_date = ''2024-01-01 00:00:00''\<rparr>],
          project_files_seq := 1,
          disk := [''project_mapping.db'' \<mapsto> File [], ''cistech.png'' \<mapsto> File [],
                   ''/tmp'' \<mapsto> Dir, ''files'' \<mapsto> Dir, ''files/project_1'' \<mapsto> Dir,
                   ''/tmp/x.pdf'' \<mapsto> File [7]],
          screen := [Success ''Project added successfully!'',
                     Success ''File uploaded successfully!'']\<rparr>)"
    by (simp add: with_tmp_def absolute_name_def portal_revamp_world str_int_1 file_calls)
  have b: "upload_file portal_revamp 1 (Some parent_name)
      = (None, portal_revamp\<lparr>
          project_files := [\<lparr>f_id = 1, project_id = 1, file_name = ''../x.pdf'',
             file_path = ''files/project_1/../x.pdf'', upload_date = ''2024-01-01 00:00:00''\<rparr>],
          project_files_seq := 1,
          disk := [''project_mapping.db'' \<mapsto> File [], ''cistech.png'' \<mapsto> File [],
                   ''files'' \<mapsto> Dir, ''files/project_1'' \<mapsto> Dir,
                   ''files/x.pdf'' \<mapsto> File [7]],
          screen := [Success ''Project added successfully!'',
                     Success ''File uploaded successfully!'']\<rparr>)"
    by (simp add: parent_name_def portal_revamp_world str_int_1 file_calls)
  have n: "''files/project_'' @ str_int 1 @ ''/'' @ name absolute_name
      = ''files/project_1//tmp/x.pdf''"
    by (simp add: str_int_1 absolute_name_def)
  show ?thesis
    unfolding a b n by (simp add: file_calls)
qed

section \<open>Deleting a file\<close>

text \<open>
  Claim C3 speaks of the file at the row's \<open>file_path\<close>; \<open>delete_file\<close> tests and removes
  \<open>row[2]\<close>, which in the column order of \<open>SELECT *\<close> is \<open>file_name\<close>. After the
  scenario's upload the row's path is \<open>files/project_1/spec.pdf\<close> and the file is there,
  yet \<open>delete_file\<close> looks for \<open>spec.pdf\<close> in the current directory, reports that the
  file does not exist on disk and leaves both the row and the file.
\<close>

theorem delete_file_tests_file_name:
  "map file_path (project_files with_attachment) = [''files/project_1/spec.pdf'']
   \<and> disk with_attachment ''files/project_1/spec.pdf'' = Some (File [37, 80, 68, 70])
   \<and> delete_file with_attachment 1
       = st_error with_attachment ''File does not exist on disk.'' None"
proof -
  have i: "int64 1" by (simp add: int64_def)
  have f: "find (\<lambda>r. f_id r = 1) (project_files with_attachment)
      = Some \<lparr>f_id = 1, project_id = 1, file_name = ''spec.pdf'',
         file_path = ''files/project_1/spec.pdf'', upload_date = ''2024-01-01 00:00:00''\<rparr>"
    by (simp add: with_attachment_fields(2))
  have e: "\<not> os_path_exists (disk with_attachment) ''spec.pdf''"
    by (simp add: with_attachment_fields(5) file_calls)
  show ?thesis
    using e by (simp add: delete_file_row [OF i with_attachment_fields(4) f])
      (simp add: with_attachment_fields)
qed

text \<open>
  When a file of the row's name happens to be in the current directory, that file is
  the one removed, and the row is deleted while the uploaded file stays.
\<close>

lemma delete_file_removes_namesake:
  "delete_file with_namesake 1
     = st_success (with_namesake\<lparr>disk := (disk with_namesake)(''spec.pdf'' := None),
         project_files := []\<rparr>) ''File deleted successfully!''
   \<and> disk (delete_file with_namesake 1) ''files/project_1/spec.pdf''
     = Some (File [37, 80, 68, 70])"
proof -
  have i: "int64 1" by (simp add: int64_def)
  have db: "db_error with_namesake = None"
    by (simp add: with_namesake_def with_attachment_fields)
  have f: "find (\<lambda>r. f_id r = 1) (project_files with_namesake)
      = Some \<lparr>f_id = 1, project_id = 1, file_name = ''spec.pdf'',
         file_path = ''files/project_1/spec.pdf'', upload_date = ''2024-01-01 00:00:00''\<rparr>"
    by (simp add: with_namesake_def with_attachment_fields(2))
  have e: "os_path_exists (disk with_namesake) ''spec.pdf''"
    by (simp add: with_namesake_def file_calls)
  have r: "os_remove (disk with_namesake) ''spec.pdf''
      = Inr ((disk with_namesake)(''spec.pdf'' := None))"
    by (simp add: with_namesake_def file_calls)
  have d: "delete_file with_namesake 1
     = st_success (with_namesake\<lparr>disk := (disk with_namesake)(''spec.pdf'' := None),
         project_files := []\<rparr>) ''File deleted successfully!''"
    using e by (simp add: delete_file_row [OF i db f] r)
      (simp add: with_namesake_def with_attachment_fields(2))
  show ?thesis
    unfolding d by (simp add: st_success_def with_namesake_def with_attachment_fields(5))
qed

section \<open>Updating a project\<close>

text \<open>
  Claim C4, for the ids a row can have. When no row has the id, \<open>update_project\<close> leaves
  the table as it was; when the id fits SQLite's 64-bit INTEGER and the database
  answers, it returns normally and changes nothing but the screen, where it reports
  success. For an id that fits 64 bits, while the database answers, the table after the
  call is the table before with each row of that id replaced by the new values under
  the same id, the dates as \<open>strftime\<close> renders them, and every other row as it was.
\<close>

theorem update_project_frame:
  "(i \<notin> p_id ` set (projects w) \<longrightarrow>
        projects (snd (update_project w i pn cat pc stt ds de)) = projects w
      \<and> (int64 i \<and> db_error w = None \<longrightarrow>
           update_project w i pn cat pc stt ds de
             = (None, st_success w ''Project updated successfully!'')))
   \<and> (int64 i \<and> db_error w = None \<longrightarrow>
        fst (update_project w i pn cat pc stt ds de) = None
      \<and> projects (snd (update_project w i pn cat pc stt ds de)) =
          map (\<lambda>r. if p_id r = i
                 then \<lparr>p_id = i, project_name = pn, category = cat, pic = pc, status = stt,
                       date_start = strftime ds, date_end = strftime de\<rparr>
                 else r) (projects w))"
proof (cases "int64 i")
  case False
  then show ?thesis by (simp add: update_project_overflow)
next
  case True
  show ?thesis
  proof (cases "db_error w")
    case None
    have absent: "i \<notin> p_id ` set (projects w) \<Longrightarrow>
        map (\<lambda>r. if p_id r = i
                   then \<lparr>p_id = i, project_name = pn, category = cat, pic = pc, status = stt,
                         date_start = strftime ds, date_end = strftime de\<rparr>
                   else r) (projects w) = projects w"
      by (rule map_if_absent)
    show ?thesis
      using None absent by (auto simp add: update_project_ok [OF True] st_success_def)
  next
    case (Some m)
    then show ?thesis by (simp add: update_project_failed [OF True] st_error_def)
  qed
qed

text \<open>With two projects: id 7 is absent; id 1 is rewritten and project 2 stays.\<close>

theorem update_project_frame_witness:
  "7 \<notin> p_id ` set (projects two_projects) \<and> int64 7 \<and> int64 1
   \<and> db_error two_projects = None
   \<and> update_project two_projects 7 ''Intranet'' ''Service'' ''Bob'' ''On Hold'' new_year new_year
       = (None, st_success two_projects ''Project updated successfully!'')
   \<and> fst (update_project two_projects 1 ''Intranet'' ''Service'' ''Bob'' ''On Hold''
        new_year new_year) = None
   \<and> projects (snd (update_project two_projects 1 ''Intranet'' ''Service'' ''Bob'' ''On Hold''
        new_year new_year))
       = [\<lparr>p_id = 1, project_name = ''Intranet'', category = ''Service'', pic = ''Bob'',
           status = ''On Hold'', date_start = ''2024-01-01'', date_end = ''2024-01-01''\<rparr>,
          \<lparr>p_id = 2, project_name = ''Helpdesk'', category = ''Service'', pic = ''Carol'',
           status = ''Not Started'', date_start = ''2024-03-15'', date_end = ''2024-04-14''\<rparr>]"
proof -
  have a: "7 \<notin> p_id ` set (projects two_projects)" by (simp add: two_projects_fields(1))
  have i7: "int64 7" and i1: "int64 1" by (simp_all add: int64_def)
  note db = two_projects_fields(2)
  have c1: "update_project two_projects 7 ''Intranet'' ''Service'' ''Bob'' ''On Hold''
      new_year new_year = (None, st_success two_projects ''Project updated successfully!'')"
    using update_project_frame [of 7 two_projects "''Intranet''" "''Service''" "''Bob''"
        "''On Hold''" new_year new_year] a i7 db
    by blast
  note t = update_project_frame [of 1 two_projects "''Intranet''" "''Service''" "''Bob''"
        "''On Hold''" new_year new_year]
  have c2: "fst (update_project two_projects 1 ''Intranet'' ''Service'' ''Bob'' ''On Hold''
        new_year new_year) = None"
    using t i1 db by blast
  have c3: "projects (snd (update_project two_projects 1 ''Intranet'' ''Service'' ''Bob''
      ''On Hold'' new_year new_year))
    = map (\<lambda>r. if p_id r = 1
             then \<lparr>p_id = 1, project_name = ''Intranet'', category = ''Service'', pic = ''Bob'',
                   status = ''On Hold'', date_start = strftime new_year,
                   date_end = strftime new_year\<rparr>
             else r) (projects two_projects)"
    using t i1 db by blast
  have c4: "map (\<lambda>r. if p_id r = 1
             then \<lparr>p_id = 1, project_name = ''Intranet'', category = ''Service'', pic = ''Bob'',
                   status = ''On Hold'', date_start = strftime new_year,
                   date_end = strftime new_year\<rparr>
             else r) (projects two_projects)
    = [\<lparr>p_id = 1, project_name = ''Intranet'', category = ''Service'', pic = ''Bob'',
           status = ''On Hold'', date_start = ''2024-01-01'', date_end = ''2024-01-01''\<rparr>,
       \<lparr>p_id = 2, project_name = ''Helpdesk'', category = ''Service'', pic = ''Carol'',
           status = ''Not Started'', date_start = ''2024-03-15'', date_end = ''2024-04-14''\<rparr>]"
    by (simp add: two_projects_fields(1) strftime_new_year)
  show ?thesis by (intro conjI a i7 i1 db c1 c2 trans [OF c3 c4])
qed

text \<open>
  An id that does not fit 64 bits is in no row, yet \<open>update_project\<close> does not succeed
  for it: the sqlite3 module raises \<open>OverflowError\<close> when it binds the id, and
  \<open>except sqlite3.Error\<close> lets that exception pass.
\<close>

theorem update_project_overflow_counterexample:
  "9223372036854775808 \<notin> p_id ` set (projects portal_revamp)
   \<and> db_error portal_revamp = None
   \<and> update_project portal_revamp 9223372036854775808 ''Intranet'' ''Service'' ''Bob''
        ''On Hold'' new_year new_year
       = (Some Overflow_Error, portal_revamp)"
proof -
  have "\<not> int64 9223372036854775808" by (simp add: int64_def)
  then show ?thesis
    by (simp add: update_project_overflow) (simp add: portal_revamp_world)
qed

section \<open>Deleting a project\<close>

text \<open>
  Claim C5. \<open>delete_project\<close> never touches the table of files, its id counter or the
  disk; while the database answers, the listing that follows is the table without the
  rows of that id, so the id is no longer listed.
\<close>

theorem delete_project_no_cascade:
  "project_files (delete_project w i) = project_files w
   \<and> project_files_seq (delete_project w i) = project_files_seq w
   \<and> disk (delete_project w i) = disk w
   \<and> (db_error w = None \<longrightarrow>
        fst (get_all_projects (delete_project w i)) = filter (\<lambda>r. p_id r \<noteq> i) (projects w)
      \<and> i \<notin> p_id ` set (fst (get_all_projects (delete_project w i))))"
proof (cases "db_error w")
  case None
  then show ?thesis
    by (auto simp add: delete_project_ok st_success_def get_all_projects_def)
next
  case (Some m)
  then show ?thesis by (simp add: delete_project_failed st_error_def)
qed

text \<open>In the scenario: project 1 goes, its file row and its file stay.\<close>

theorem delete_project_no_cascade_witness:
  "db_error with_attachment = None
   \<and> fst (get_all_projects (delete_project with_attachment 1)) = []
   \<and> map project_id (project_files (delete_project with_attachment 1)) = [1]
   \<and> disk (delete_project with_attachment 1) ''files/project_1/spec.pdf''
       = Some (File [37, 80, 68, 70])"
proof -
  note db = with_attachment_fields(4)
  note t = delete_project_no_cascade [of with_attachment 1]
  have "fst (get_all_projects (delete_project with_attachment 1))
      = filter (\<lambda>r. p_id r \<noteq> 1) (projects with_attachment)"
    using t db by blast
  then have c1: "fst (get_all_projects (delete_project with_attachment 1)) = []"
    by (simp add: with_attachment_fields(1))
  have "project_files (delete_project with_attachment 1) = project_files with_attachment"
    by (rule t [THEN conjunct1])
  then have c2: "map project_id (project_files (delete_project with_attachment 1)) = [1]"
    by (simp add: with_attachment_fields(2))
  have "disk (delete_project with_attachment 1) = disk with_attachment"
    by (rule t [THEN conjunct2, THEN conjunct2, THEN conjunct1])
  then have c3: "disk (delete_project with_attachment 1) ''files/project_1/spec.pdf''
       = Some (File [37, 80, 68, 70])"
    by (simp add: with_attachment_fields(5))
  show ?thesis by (intro conjI db c1 c2 c3)
qed

section \<open>Required fields\<close>

text \<open>
  Claim C6, placed where the check is made. The handler of the "Add Project" form
  rejects an empty name or an empty PIC: it shows \<open>Project Name and PIC are required!\<close>,
  does not call \<open>add_project\<close>, and the table and its id counter stay as they were.
\<close>

theorem tab2_submit_requires_name_and_pic:
  assumes "new_project = [] \<or> new_pic = []"
  shows "tab2_submit w new_project new_category new_pic new_status start_date end_date
           = st_error w ''Project Name and PIC are required!'' None
       \<and> projects (tab2_submit w new_project new_category new_pic new_status start_date end_date)
           = projects w
       \<and> projects_seq (tab2_submit w new_project new_category new_pic new_status start_date end_date)
           = projects_seq w"
  using assms by (auto simp add: tab2_submit_def st_error_def)

text \<open>An empty name submitted on the fresh database.\<close>

theorem tab2_submit_requires_name_and_pic_witness:
  "(([]::string) = [] \<or> ''Alice'' = ([]::string))
   \<and> tab2_submit fresh_db [] ''Project'' ''Alice'' ''In Progress'' new_year new_year
       = st_error fresh_db ''Project Name and PIC are required!'' None
   \<and> projects (tab2_submit fresh_db [] ''Project'' ''Alice'' ''In Progress'' new_year new_year) = []"
proof -
  have h: "([]::string) = [] \<or> ''Alice'' = ([]::string)" by simp
  note t = tab2_submit_requires_name_and_pic [OF h, of fresh_db "''Project''" "''In Progress''"
      new_year new_year]
  have c1: "tab2_submit fresh_db [] ''Project'' ''Alice'' ''In Progress'' new_year new_year
       = st_error fresh_db ''Project Name and PIC are required!'' None"
    by (rule t [THEN conjunct1])
  have "projects (tab2_submit fresh_db [] ''Project'' ''Alice'' ''In Progress'' new_year new_year)
      = projects fresh_db"
    by (rule t [THEN conjunct2, THEN conjunct1])
  then have c2: "projects (tab2_submit fresh_db [] ''Project'' ''Alice'' ''In Progress''
      new_year new_year) = []"
    by (simp add: fresh_db_def)
  show ?thesis by (intro conjI h c1 c2)
qed

text \<open>
  \<open>add_project\<close> itself checks nothing: called with an empty name and an empty PIC on
  the fresh database it inserts the row and reports success.
\<close>

theorem add_project_empty_name_counterexample:
  "projects (add_project fresh_db [] ''Project'' [] ''In Progress'' new_year new_year)
     = [\<lparr>p_id = 1, project_name = [], category = ''Project'', pic = [],
         status = ''In Progress'', date_start = ''2024-01-01'', date_end = ''2024-01-01''\<rparr>]
   \<and> screen (add_project fresh_db [] ''Project'' [] ''In Progress'' new_year new_year)
     = [Success ''Project added successfully!'']"
  by (simp add: add_project_ok fresh_db_def st_success_def next_rowid_def strftime_new_year)

section \<open>Exceptions that are not caught\<close>

text \<open>
  Claim C7 says every failure ends in a message. \<open>upload_file\<close> and the download loop
  have no \<open>try\<close>, unlike the five other operations. Three states show it: with the
  uploaded file gone from the disk, the loop raises \<open>FileNotFoundError\<close>; with the
  database locked, \<open>upload_file\<close> raises \<open>sqlite3.Error\<close> after it has written the file;
  with a name that has a directory part, \<open>upload_file\<close> raises \<open>FileNotFoundError\<close> when
  it opens the file. In the last two the state returned shows no message on screen
  beyond those already there.
\<close>

theorem exceptions_leave_upload_and_download:
  "tab5_files blob_lost 1 = Inl (OS_Error FileNotFoundError ''files/project_1/spec.pdf'')
   \<and> upload_file locked 1 (Some spec_pdf)
       = (Some (Sqlite_Error ''database is locked''),
          locked\<lparr>disk := (disk locked)(''files'' \<mapsto> Dir, ''files/project_1'' \<mapsto> Dir,
               ''files/project_1/spec.pdf'' \<mapsto> File [37, 80, 68, 70])\<rparr>)
   \<and> upload_file portal_revamp 1 (Some nested_name)
       = (Some (OS_Error FileNotFoundError ''files/project_1/a/b''),
          portal_revamp\<lparr>disk := (disk portal_revamp)(''files'' \<mapsto> Dir,
               ''files/project_1'' \<mapsto> Dir)\<rparr>)"
proof -
  have a: "tab5_files blob_lost 1 = Inl (OS_Error FileNotFoundError ''files/project_1/spec.pdf'')"
    by (simp add: tab5_files_def project_files_query_def blob_lost_def with_attachment_fields
        file_calls)
  have b: "upload_file locked 1 (Some spec_pdf)
       = (Some (Sqlite_Error ''database is locked''),
          locked\<lparr>disk := (disk locked)(''files'' \<mapsto> Dir, ''files/project_1'' \<mapsto> Dir,
               ''files/project_1/spec.pdf'' \<mapsto> File [37, 80, 68, 70])\<rparr>)"
    by (simp add: spec_pdf_def locked_def portal_revamp_world str_int_1 file_calls)
  have c: "upload_file portal_revamp 1 (Some nested_name)
       = (Some (OS_Error FileNotFoundError ''files/project_1/a/b''),
          portal_revamp\<lparr>disk := (disk portal_revamp)(''files'' \<mapsto> Dir,
               ''files/project_1'' \<mapsto> Dir)\<rparr>)"
    by (simp add: nested_name_def portal_revamp_world str_int_1 file_calls)
  show ?thesis by (intro conjI a b c)
qed

section \<open>Order of the listings\<close>

text \<open>
  Claim C8. In every reachable state, while the database answers, the listing of
  projects is the whole table, in strictly ascending order of id; a project added next
  is listed last, with an id above all those listed. The files listed for a project are
  the rows of the table of files with that \<open>project_id\<close>, no other, in table order,
  which is strictly ascending order of id.
\<close>

theorem listings_in_insertion_order:
  assumes "reachable w" and db: "db_error w = None"
  shows "fst (get_all_projects w) = projects w
    \<and> sorted_wrt (<) (map p_id (fst (get_all_projects w)))
    \<and> (\<exists>r. fst (get_all_projects (add_project w pn cat pc stt ds de))
              = fst (get_all_projects w) @ [r]
          \<and> (\<forall>x \<in> set (fst (get_all_projects w)). p_id x < p_id r))
    \<and> (\<exists>rows. project_files_query w pid = Inr rows
          \<and> rows = map (\<lambda>r. (f_id r, file_name r, file_path r))
                     (filter (\<lambda>r. project_id r = pid) (project_files w))
          \<and> set rows = (\<lambda>r. (f_id r, file_name r, file_path r))
                          ` {r \<in> set (project_files w). project_id r = pid}
          \<and> sorted_wrt (<) (map fst rows))"
proof -
  from reachable_ids_ascending [OF assms(1)]
  have sp: "sorted_wrt (<) (map p_id (projects w))"
    and sf: "sorted_wrt (<) (map f_id (project_files w))"
    by (simp_all add: ids_ascending_def)
  have l: "fst (get_all_projects w) = projects w"
    using db by (simp add: get_all_projects_def)
  let ?r = "\<lparr>p_id = next_rowid (projects_seq w) (map p_id (projects w)), project_name = pn,
       category = cat, pic = pc, status = stt, date_start = strftime ds,
       date_end = strftime de\<rparr>"
  have a: "fst (get_all_projects (add_project w pn cat pc stt ds de)) = projects w @ [?r]"
    using db by (simp add: add_project_ok get_all_projects_def st_success_def)
  have lt: "\<forall>x \<in> set (projects w). p_id x < p_id ?r"
    by (simp add: next_rowid_gt_ids)
  let ?rows = "map (\<lambda>r. (f_id r, file_name r, file_path r))
      (filter (\<lambda>r. project_id r = pid) (project_files w))"
  have q: "project_files_query w pid = Inr ?rows"
    using db by (simp add: project_files_query_def)
  have s: "set ?rows = (\<lambda>r. (f_id r, file_name r, file_path r))
      ` {r \<in> set (project_files w). project_id r = pid}"
    by auto
  have "map fst ?rows = map f_id (filter (\<lambda>r. project_id r = pid) (project_files w))"
    by (simp add: comp_def)
  then have o: "sorted_wrt (<) (map fst ?rows)"
    using sorted_ids_filter [OF sf, of "\<lambda>r. project_id r = pid"] by (simp only:)
  have ex1: "\<exists>r. fst (get_all_projects (add_project w pn cat pc stt ds de))
              = fst (get_all_projects w) @ [r]
          \<and> (\<forall>x \<in> set (fst (get_all_projects w)). p_id x < p_id r)"
    unfolding l a using lt by blast
  have ex2: "\<exists>rows. project_files_query w pid = Inr rows
          \<and> rows = ?rows
          \<and> set rows = (\<lambda>r. (f_id r, file_name r, file_path r))
                          ` {r \<in> set (project_files w). project_id r = pid}
          \<and> sorted_wrt (<) (map fst rows)"
    using q s o by blast
  show ?thesis using l sp ex1 ex2 by simp
qed

text \<open>In the scenario: one project, one file for project 1, none for project 2.\<close>

theorem listings_in_insertion_order_witness:
  "reachable with_attachment \<and> db_error with_attachment = None
   \<and> fst (get_all_projects with_attachment) =
       [\<lparr>p_id = 1, project_name = ''Portal Revamp'', category = ''Project'', pic = ''Alice'',
         status = ''In Progress'', date_start = ''2024-01-01'', date_end = ''2024-02-01''\<rparr>]
   \<and> project_files_query with_attachment 1 = Inr [(1, ''spec.pdf'', ''files/project_1/spec.pdf'')]
   \<and> project_files_query with_attachment 2 = Inr []"
proof -
  note db = with_attachment_fields(4)
  note t1 = listings_in_insertion_order [OF reachable_with_attachment db, of _ _ _ _ _ _ 1]
  note t2 = listings_in_insertion_order [OF reachable_with_attachment db, of _ _ _ _ _ _ 2]
  have c1: "fst (get_all_projects with_attachment) =
       [\<lparr>p_id = 1, project_name = ''Portal Revamp'', category = ''Project'', pic = ''Alice'',
         status = ''In Progress'', date_start = ''2024-01-01'', date_end = ''2024-02-01''\<rparr>]"
    using t1 [THEN conjunct1] by (simp only: with_attachment_fields(1))
  from t1 [THEN conjunct2, THEN conjunct2, THEN conjunct2] obtain rows where
    "project_files_query with_attachment 1 = Inr rows"
    "rows = map (\<lambda>r. (f_id r, file_name r, file_path r))
                     (filter (\<lambda>r. project_id r = 1) (project_files with_attachment))"
    by (elim exE conjE)
  then have c2: "project_files_query with_attachment 1
      = Inr [(1, ''spec.pdf'', ''files/project_1/spec.pdf'')]"
    by (simp add: with_attachment_fields(2))
  from t2 [THEN conjunct2, THEN conjunct2, THEN conjunct2] obtain rows where
    "project_files_query with_attachment 2 = Inr rows"
    "rows = map (\<lambda>r. (f_id r, file_name r, file_path r))
                     (filter (\<lambda>r. project_id r = 2) (project_files with_attachment))"
    by (elim exE conjE)
  then have c3: "project_files_query with_attachment 2 = Inr []"
    by (simp add: with_attachment_fields(2))
  show ?thesis by (intro conjI reachable_with_attachment db c1 c2 c3)
qed

section \<open>Uploading without a file\<close>

text \<open>
  Claim C9. \<open>upload_file\<close> called with \<open>None\<close> for the file returns normally and leaves the
  whole state as it was: nothing on disk, no row, no message.
\<close>

theorem upload_file_without_file: "upload_file w pid None = (None, w)"
  by (simp add: upload_file_def)

section \<open>The same name uploaded twice\<close>

text \<open>
  Claim C10. After \<open>spec.pdf\<close> is uploaded twice for project 1 there are two rows with
  one \<open>file_path\<close>, and the file holds the second content. The claim goes on to say that
  \<open>delete_file\<close> on either row removes that file; it removes nothing, because it looks
  for the row's \<open>file_name\<close> in the current directory: for either id it reports that
  the file does not exist on disk and leaves rows and file as they were.
\<close>

theorem delete_file_keeps_shared_blob:
  "map f_id (project_files uploaded_twice) = [1, 2]
   \<and> map file_path (project_files uploaded_twice)
       = [''files/project_1/spec.pdf'', ''files/project_1/spec.pdf'']
   \<and> disk uploaded_twice ''files/project_1/spec.pdf'' = Some (File [1, 2])
   \<and> delete_file uploaded_twice 1
       = st_error uploaded_twice ''File does not exist on disk.'' None
   \<and> delete_file uploaded_twice 2
       = st_error uploaded_twice ''File does not exist on disk.'' None"
proof -
  have i: "int64 1" "int64 2" by (simp_all add: int64_def)
  have f1: "find (\<lambda>r. f_id r = 1) (project_files uploaded_twice)
      = Some \<lparr>f_id = 1, project_id = 1, file_name = ''spec.pdf'',
         file_path = ''files/project_1/spec.pdf'', upload_date = ''2024-01-01 00:00:00''\<rparr>"
    by (simp add: uploaded_twice_fields(1))
  have f2: "find (\<lambda>r. f_id r = 2) (project_files uploaded_twice)
      = Some \<lparr>f_id = 2, project_id = 1, file_name = ''spec.pdf'',
         file_path = ''files/project_1/spec.pdf'', upload_date = ''2024-01-01 00:00:00''\<rparr>"
    by (simp add: uploaded_twice_fields(1))
  have e: "\<not> os_path_exists (disk uploaded_twice) ''spec.pdf''"
    by (simp add: uploaded_twice_fields(3) file_calls)
  show ?thesis
    using e
    by (simp add: delete_file_row [OF i(1) uploaded_twice_fields(2) f1]
        delete_file_row [OF i(2) uploaded_twice_fields(2) f2])
      (simp add: uploaded_twice_fields)
qed

end
